theory Spec2Isabelle
  imports Main "HOL-Library.Word"
begin

unbundle bit_operations_syntax

section \<open>Data model\<close>

text \<open>
  The addon \<^verbatim>\<open>src/service_status.cc\<close> exports three functions to JavaScript:
  \<^verbatim>\<open>serviceExists\<close>, \<^verbatim>\<open>getServiceStatus\<close> and \<^verbatim>\<open>listServices\<close>. Each one
  talks to the Windows service control manager through a handful of Win32 calls.
  The embedding threads an explicit \<open>world\<close> through every Win32 call: the thread's
  last-error value, the service-control handles that are open, and the log of the
  calls made so far. What the operating system answers is a parameter (\<open>platform\<close>).
\<close>

type_synonym DWORD = "32 word"

text \<open>An \<^verbatim>\<open>SC_HANDLE\<close>; the value 0 is \<^verbatim>\<open>NULL\<close>.\<close>
type_synonym SC_HANDLE = nat

text \<open>
  Text that the platform hands over or receives as \<^verbatim>\<open>WCHAR*\<close>. A wide string is
  represented by the UTF-8 of the text it stands for; the number of UTF-16 units it takes
  is \<open>utf16_units\<close> of that.
\<close>
type_synonym wstring = string

subsection \<open>JavaScript values\<close>

datatype js_value =
    JSUndefined
  | JSNull
  | JSBoolean bool
  | JSNumber int
  | JSString string
  | JSObject "(string \<times> js_value) list"
  | JSArray "js_value list"

text \<open>A pending JavaScript exception: \<^verbatim>\<open>Napi::TypeError\<close> or \<^verbatim>\<open>Napi::Error\<close>, with its message.\<close>
datatype js_error = TypeError string | Error string

text \<open>
  What a call returns to JavaScript: the thrown exception (the C++ function then
  returns \<^verbatim>\<open>env.Null()\<close>, which the caller never sees), or the returned value.
\<close>
type_synonym js_result = "js_error + js_value"

fun IsString :: "js_value \<Rightarrow> bool" where
  "IsString (JSString s) = True"
| "IsString v = False"

fun Utf8Value :: "js_value \<Rightarrow> string" where
  "Utf8Value (JSString s) = s"
| "Utf8Value v = []"

text \<open>\<^verbatim>\<open>obj.Set(key, value)\<close>: an existing property is overwritten in place, a new one is appended.\<close>
fun obj_Set :: "string \<Rightarrow> js_value \<Rightarrow> (string \<times> js_value) list \<Rightarrow> (string \<times> js_value) list" where
  "obj_Set k v [] = [(k, v)]"
| "obj_Set k v ((k', v') # ps) = (if k' = k then (k, v) # ps else (k', v') # obj_Set k v ps)"

text \<open>Reading a property of a returned value; \<open>None\<close> when the value is no object or has no such property.\<close>
fun property :: "js_value \<Rightarrow> string \<Rightarrow> js_value option" where
  "property (JSObject ps) k = map_of ps k"
| "property v k = None"

subsection \<open>Platform structures and constants\<close>

text \<open>\<^verbatim>\<open>SERVICE_STATUS_PROCESS\<close>, with the two fields the addon reads.\<close>
record SERVICE_STATUS_PROCESS =
  dwCurrentState :: DWORD
  dwProcessId :: DWORD

text \<open>\<^verbatim>\<open>ENUM_SERVICE_STATUS_PROCESSW\<close>; a string pointer is \<open>None\<close> when it is null.\<close>
record ENUM_SERVICE_STATUS_PROCESSW =
  lpServiceName :: "wstring option"
  lpDisplayName :: "wstring option"
  ServiceStatusProcess :: SERVICE_STATUS_PROCESS

text \<open>
  The constants the addon takes from \<^verbatim>\<open>winsvc.h\<close> and \<^verbatim>\<open>winerror.h\<close>. The headers
  belong to the Windows SDK, not to the repository; the values are the SDK's.
\<close>

definition SERVICE_STOPPED :: DWORD where "SERVICE_STOPPED = 1"
definition SERVICE_START_PENDING :: DWORD where "SERVICE_START_PENDING = 2"
definition SERVICE_STOP_PENDING :: DWORD where "SERVICE_STOP_PENDING = 3"
definition SERVICE_RUNNING :: DWORD where "SERVICE_RUNNING = 4"
definition SERVICE_CONTINUE_PENDING :: DWORD where "SERVICE_CONTINUE_PENDING = 5"
definition SERVICE_PAUSE_PENDING :: DWORD where "SERVICE_PAUSE_PENDING = 6"
definition SERVICE_PAUSED :: DWORD where "SERVICE_PAUSED = 7"

definition SC_MANAGER_CONNECT :: DWORD where "SC_MANAGER_CONNECT = 1"
definition SC_MANAGER_ENUMERATE_SERVICE :: DWORD where "SC_MANAGER_ENUMERATE_SERVICE = 4"
definition SERVICE_QUERY_CONFIG :: DWORD where "SERVICE_QUERY_CONFIG = 1"
definition SERVICE_QUERY_STATUS :: DWORD where "SERVICE_QUERY_STATUS = 4"

definition ERROR_ACCESS_DENIED :: DWORD where "ERROR_ACCESS_DENIED = 5"
definition ERROR_INVALID_HANDLE :: DWORD where "ERROR_INVALID_HANDLE = 6"
definition ERROR_INSUFFICIENT_BUFFER :: DWORD where "ERROR_INSUFFICIENT_BUFFER = 122"
definition ERROR_INVALID_NAME :: DWORD where "ERROR_INVALID_NAME = 123"
definition ERROR_SERVICE_DOES_NOT_EXIST :: DWORD where "ERROR_SERVICE_DOES_NOT_EXIST = 1060"

section \<open>The platform\<close>

text \<open>Every Win32 call the addon makes, with the arguments that vary.\<close>
datatype call =
    MultiByteToWideChar_call string nat
  | WideCharToMultiByte_call wstring nat
  | OpenSCManagerW_call DWORD
  | OpenServiceW_call SC_HANDLE wstring DWORD
  | QueryServiceStatusEx_call SC_HANDLE
  | QueryServiceConfigW_call SC_HANDLE DWORD
  | EnumServicesStatusExW_call SC_HANDLE DWORD DWORD
  | CloseServiceHandle_call SC_HANDLE
  | GetLastError_call

text \<open>
  What the addon can observe of the calling thread and the service control manager: the
  value \<^verbatim>\<open>GetLastError\<close> would return, the service-control handles that are open, the
  number of handles granted so far, and the log of the Win32 calls made, oldest first.
\<close>
record world =
  last_error :: DWORD
  handles :: "SC_HANDLE list"
  allocated :: nat
  trace :: "call list"

text \<open>What \<^verbatim>\<open>QueryServiceConfigW\<close> answers: the error when it fails, the bytes needed, and the display name it wrote.\<close>
record config_reply =
  cfg_error :: "DWORD option"
  cfg_bytes_needed :: DWORD
  cfg_display_name :: "wstring option"

text \<open>What \<^verbatim>\<open>EnumServicesStatusExW\<close> answers: the error when it fails, the bytes needed, the entries written and the resume index.\<close>
record enum_reply =
  enum_error :: "DWORD option"
  enum_bytes_needed :: DWORD
  enum_services :: "ENUM_SERVICE_STATUS_PROCESSW list"
  enum_resume :: DWORD

text \<open>
  The answers of the operating system, which is not part of the repository. Each answer
  may depend on the whole world, so on every call made before. A failing call answers
  with its error code (\<open>Some e\<close>, \<open>Inl e\<close>). What a call that succeeds does to the
  thread's last error is the platform's too (\<open>on_success\<close>: \<open>None\<close> when it leaves the
  value alone, \<open>Some e\<close> when it stores \<open>e\<close>): Win32 promises nothing about it. The
  functions below wrap these answers in what the Win32 documentation does fix: a call
  that fails stores its error code as the thread's last error, an open that succeeds
  returns a new non-null handle, and closing an open handle succeeds.
\<close>
record platform =
  on_success :: "world \<Rightarrow> call \<Rightarrow> DWORD option"
  scm_open :: "world \<Rightarrow> DWORD option"
  svc_open :: "world \<Rightarrow> SC_HANDLE \<Rightarrow> wstring \<Rightarrow> DWORD option"
  status_query :: "world \<Rightarrow> SC_HANDLE \<Rightarrow> DWORD + SERVICE_STATUS_PROCESS"
  config_query :: "world \<Rightarrow> SC_HANDLE \<Rightarrow> DWORD \<Rightarrow> config_reply"
  enum_query :: "world \<Rightarrow> SC_HANDLE \<Rightarrow> DWORD \<Rightarrow> DWORD \<Rightarrow> enum_reply"

definition logged :: "call \<Rightarrow> world \<Rightarrow> world" where
  "logged c w = w\<lparr>trace := trace w @ [c]\<rparr>"

definition SetLastError :: "DWORD \<Rightarrow> world \<Rightarrow> world" where
  "SetLastError e w = w\<lparr>last_error := e\<rparr>"

text \<open>The world after call \<open>c\<close> has succeeded: the call is logged, the last error is what the platform makes it.\<close>
definition succeeded :: "platform \<Rightarrow> call \<Rightarrow> world \<Rightarrow> world" where
  "succeeded p c w =
     (case on_success p w c of
        None \<Rightarrow> logged c w
      | Some e \<Rightarrow> SetLastError e (logged c w))"

definition GetLastError :: "world \<Rightarrow> DWORD \<times> world" where
  "GetLastError w = (last_error w, logged GetLastError_call w)"

text \<open>A granted handle is a fresh non-null value, recorded as open.\<close>
definition grant :: "world \<Rightarrow> SC_HANDLE \<times> world" where
  "grant w = (let h = Suc (allocated w) in (h, w\<lparr>handles := h # handles w, allocated := h\<rparr>))"

definition OpenSCManagerW :: "platform \<Rightarrow> DWORD \<Rightarrow> world \<Rightarrow> SC_HANDLE \<times> world" where
  "OpenSCManagerW p access w =
     (case scm_open p w of
        None \<Rightarrow> grant (succeeded p (OpenSCManagerW_call access) w)
      | Some e \<Rightarrow> (0, SetLastError e (logged (OpenSCManagerW_call access) w)))"

definition OpenServiceW :: "platform \<Rightarrow> SC_HANDLE \<Rightarrow> wstring \<Rightarrow> DWORD \<Rightarrow> world \<Rightarrow> SC_HANDLE \<times> world" where
  "OpenServiceW p hSCManager name access w =
     (case svc_open p w hSCManager name of
        None \<Rightarrow> grant (succeeded p (OpenServiceW_call hSCManager name access) w)
      | Some e \<Rightarrow> (0, SetLastError e (logged (OpenServiceW_call hSCManager name access) w)))"

text \<open>
  Closing an open handle succeeds and releases it; closing anything else fails with
  \<^verbatim>\<open>ERROR_INVALID_HANDLE\<close>.
\<close>
definition CloseServiceHandle :: "platform \<Rightarrow> SC_HANDLE \<Rightarrow> world \<Rightarrow> bool \<times> world" where
  "CloseServiceHandle p h w =
     (if h \<in> set (handles w)
      then (True, (succeeded p (CloseServiceHandle_call h) w)\<lparr>handles := remove1 h (handles w)\<rparr>)
      else (False, SetLastError ERROR_INVALID_HANDLE (logged (CloseServiceHandle_call h) w)))"

text \<open>
  \<^verbatim>\<open>QueryServiceStatusEx\<close> into a zero-initialised \<^verbatim>\<open>ssp\<close>: the result, the
  structure afterwards, the world afterwards.
\<close>
definition QueryServiceStatusEx ::
  "platform \<Rightarrow> SC_HANDLE \<Rightarrow> world \<Rightarrow> bool \<times> SERVICE_STATUS_PROCESS \<times> world" where
  "QueryServiceStatusEx p h w =
     (case status_query p w h of
        Inl e \<Rightarrow> (False, \<lparr>dwCurrentState = 0, dwProcessId = 0\<rparr>,
                  SetLastError e (logged (QueryServiceStatusEx_call h) w))
      | Inr ssp \<Rightarrow> (True, ssp, succeeded p (QueryServiceStatusEx_call h) w))"

text \<open>\<^verbatim>\<open>QueryServiceConfigW\<close> with a buffer of \<open>cbBuf\<close> bytes: the result, the bytes needed, the display-name pointer, the world.\<close>
definition QueryServiceConfigW ::
  "platform \<Rightarrow> SC_HANDLE \<Rightarrow> DWORD \<Rightarrow> world \<Rightarrow> bool \<times> DWORD \<times> wstring option \<times> world" where
  "QueryServiceConfigW p h cbBuf w =
     (let r = config_query p w h cbBuf in
      case cfg_error r of
        Some e \<Rightarrow> (False, cfg_bytes_needed r, cfg_display_name r,
                   SetLastError e (logged (QueryServiceConfigW_call h cbBuf) w))
      | None \<Rightarrow> (True, cfg_bytes_needed r, cfg_display_name r,
                 succeeded p (QueryServiceConfigW_call h cbBuf) w))"

text \<open>\<^verbatim>\<open>EnumServicesStatusExW\<close> with a buffer of \<open>cbBuf\<close> bytes and a resume index: the result, the reply, the world.\<close>
definition EnumServicesStatusExW ::
  "platform \<Rightarrow> SC_HANDLE \<Rightarrow> DWORD \<Rightarrow> DWORD \<Rightarrow> world \<Rightarrow> bool \<times> enum_reply \<times> world" where
  "EnumServicesStatusExW p h cbBuf resume w =
     (let r = enum_query p w h cbBuf resume in
      case enum_error r of
        Some e \<Rightarrow> (False, r, SetLastError e (logged (EnumServicesStatusExW_call h cbBuf resume) w))
      | None \<Rightarrow> (True, r, succeeded p (EnumServicesStatusExW_call h cbBuf resume) w))"

text \<open>
  The text a \<^verbatim>\<open>c_str()\<close> pointer denotes when the length is given as \<open>-1\<close>: everything
  before the first NUL.
\<close>
definition c_str :: "string \<Rightarrow> string" where
  "c_str s = takeWhile (\<lambda>c. c \<noteq> CHR 0x00) s"

text \<open>
  The number of UTF-16 code units of a text given in UTF-8, as \<^verbatim>\<open>Utf8Value\<close> returns
  it: one for every character, two for a character outside the basic plane. A byte below
  \<open>0x80\<close> is a character, the bytes \<open>0x80\<close> to \<open>0xBF\<close> continue one, the bytes from
  \<open>0xC0\<close> start one, and those from \<open>0xF0\<close> start one of four bytes, outside the basic
  plane.
\<close>
fun utf16_units :: "string \<Rightarrow> nat" where
  "utf16_units [] = 0"
| "utf16_units (c # cs) =
     (if of_char c < (0x80 :: nat) then 1
      else if of_char c < (0xC0 :: nat) then 0
      else if of_char c < (0xF0 :: nat) then 1
      else 2) + utf16_units cs"

text \<open>
  \<^verbatim>\<open>MultiByteToWideChar\<close> from UTF-8, called with length \<open>-1\<close> and no flags on the text
  \<open>s\<close>, with a buffer of \<open>cchBuf\<close> UTF-16 units: the value returned, the text written to
  the buffer, the world. With no buffer the call returns the number of units needed,
  terminator included; with a buffer of at least that many units it writes the text and
  returns the same number; with a smaller one it fails.
\<close>
definition MultiByteToWideChar :: "platform \<Rightarrow> string \<Rightarrow> nat \<Rightarrow> world \<Rightarrow> int \<times> wstring \<times> world" where
  "MultiByteToWideChar p s cchBuf w =
     (if cchBuf = 0
      then (int (utf16_units s) + 1, [], succeeded p (MultiByteToWideChar_call s cchBuf) w)
      else if cchBuf < Suc (utf16_units s)
      then (0, [], SetLastError ERROR_INSUFFICIENT_BUFFER (logged (MultiByteToWideChar_call s cchBuf) w))
      else (int (utf16_units s) + 1, s, succeeded p (MultiByteToWideChar_call s cchBuf) w))"

text \<open>
  \<^verbatim>\<open>WideCharToMultiByte\<close> to UTF-8, called with length \<open>-1\<close> and no flags on the wide
  text \<open>s\<close>, as \<^verbatim>\<open>WideToUtf8\<close> calls it (without a buffer, then with one of the size
  returned): the number of bytes of the UTF-8 text, terminator included, and the world.
\<close>
definition WideCharToMultiByte :: "platform \<Rightarrow> wstring \<Rightarrow> nat \<Rightarrow> world \<Rightarrow> int \<times> world" where
  "WideCharToMultiByte p s cbBuf w =
     (int (length s) + 1, succeeded p (WideCharToMultiByte_call s cbBuf) w)"

text \<open>The text behind a wide-string pointer: nothing behind a null pointer.\<close>
definition wide_text :: "wstring option \<Rightarrow> string" where
  "wide_text wide = (case wide of None \<Rightarrow> [] | Some ws \<Rightarrow> ws)"

section \<open>The addon\<close>

text \<open>
  The functions of \<^verbatim>\<open>src/service_status.cc\<close>, in the order of the file. A function
  that throws returns \<open>Inl\<close> of the exception; every function returns the world it leaves.
\<close>

text \<open>\<^verbatim>\<open>std::to_string\<close> of an unsigned value, as used in the error messages.\<close>
fun to_string :: "nat \<Rightarrow> string" where
  "to_string n =
     (if n < 10 then [''0123456789'' ! n]
      else to_string (n div 10) @ [''0123456789'' ! (n mod 10)])"

declare to_string.simps [simp del]

text \<open>\<^verbatim>\<open>WideToUtf8\<close>, lines 8 to 15.\<close>
definition WideToUtf8 :: "platform \<Rightarrow> wstring option \<Rightarrow> world \<Rightarrow> string \<times> world" where
  "WideToUtf8 p wide w =
     (case wide of
        None \<Rightarrow> ([], w)
      | Some ws \<Rightarrow>
          (case WideCharToMultiByte p ws 0 w of (len, w1) \<Rightarrow>
             if len \<le> 0 then ([], w1)
             else (case WideCharToMultiByte p ws (nat len) w1 of (_, w2) \<Rightarrow>
                     (take (nat (len - 1)) ws, w2))))"

text \<open>\<^verbatim>\<open>StateToString\<close>, lines 18 to 29.\<close>
definition StateToString :: "DWORD \<Rightarrow> string" where
  "StateToString state =
     (if state = SERVICE_STOPPED then ''stopped''
      else if state = SERVICE_START_PENDING then ''start_pending''
      else if state = SERVICE_STOP_PENDING then ''stop_pending''
      else if state = SERVICE_RUNNING then ''running''
      else if state = SERVICE_CONTINUE_PENDING then ''continue_pending''
      else if state = SERVICE_PAUSE_PENDING then ''pause_pending''
      else if state = SERVICE_PAUSED then ''paused''
      else ''unknown'')"

text \<open>\<^verbatim>\<open>ServiceExists\<close>, lines 32 to 74; \<open>info\<close> is the list of the JavaScript arguments.\<close>
definition ServiceExists :: "platform \<Rightarrow> js_value list \<Rightarrow> world \<Rightarrow> js_result \<times> world" where
  "ServiceExists p info w =
     (if length info < 1 \<or> \<not> IsString (info ! 0)
      then (Inl (TypeError ''Service name (string) expected''), w)
      else
        let nameUtf8 = Utf8Value (info ! 0) in
        case MultiByteToWideChar p (c_str nameUtf8) 0 w of (wlen, _, w1) \<Rightarrow>
        case MultiByteToWideChar p (c_str nameUtf8) (nat wlen) w1 of (_, wname, w2) \<Rightarrow>
        case OpenSCManagerW p (SC_MANAGER_CONNECT OR SC_MANAGER_ENUMERATE_SERVICE) w2 of (hSCManager, w3) \<Rightarrow>
        if hSCManager = 0 then
          case GetLastError w3 of (err, w4) \<Rightarrow>
          if err = ERROR_ACCESS_DENIED
          then (Inl (Error ''Access denied opening Service Control Manager''), w4)
          else (Inl (Error (''Failed to open Service Control Manager (error '' @ to_string (unat err) @ '')'')), w4)
        else
          case OpenServiceW p hSCManager wname (SERVICE_QUERY_STATUS OR SERVICE_QUERY_CONFIG) w3 of (hService, w4) \<Rightarrow>
          if hService = 0 then
            case GetLastError w4 of (err, w5) \<Rightarrow>
            case CloseServiceHandle p hSCManager w5 of (_, w6) \<Rightarrow>
            if err = ERROR_SERVICE_DOES_NOT_EXIST then (Inr (JSBoolean False), w6)
            else if err = ERROR_ACCESS_DENIED
            then (Inl (Error (''Access denied opening service '' @ [CHR 0x27] @ nameUtf8 @ [CHR 0x27])), w6)
            else (Inl (Error (''Failed to open service '' @ [CHR 0x27] @ nameUtf8 @ [CHR 0x27]
                              @ '' (error '' @ to_string (unat err) @ '')'')), w6)
          else
            case CloseServiceHandle p hService w4 of (_, w5) \<Rightarrow>
            case CloseServiceHandle p hSCManager w5 of (_, w6) \<Rightarrow>
            (Inr (JSBoolean True), w6))"


text \<open>
  \<^verbatim>\<open>GetServiceStatus\<close>, lines 77 to 155. \<^verbatim>\<open>GetLastError\<close> is read at line 143, after
  the configuration queries and the two closes.
\<close>
definition GetServiceStatus :: "platform \<Rightarrow> js_value list \<Rightarrow> world \<Rightarrow> js_result \<times> world" where
  "GetServiceStatus p info w =
     (if length info < 1 \<or> \<not> IsString (info ! 0)
      then (Inl (TypeError ''Service name (string) expected''), w)
      else
        let nameUtf8 = Utf8Value (info ! 0) in
        case MultiByteToWideChar p (c_str nameUtf8) 0 w of (wlen, _, w1) \<Rightarrow>
        case MultiByteToWideChar p (c_str nameUtf8) (nat wlen) w1 of (_, wname, w2) \<Rightarrow>
        case OpenSCManagerW p (SC_MANAGER_CONNECT OR SC_MANAGER_ENUMERATE_SERVICE) w2 of (hSCManager, w3) \<Rightarrow>
        if hSCManager = 0 then
          case GetLastError w3 of (err, w4) \<Rightarrow>
          if err = ERROR_ACCESS_DENIED
          then (Inl (Error ''Access denied opening Service Control Manager''), w4)
          else (Inl (Error (''Failed to open Service Control Manager (error '' @ to_string (unat err) @ '')'')), w4)
        else
          case OpenServiceW p hSCManager wname (SERVICE_QUERY_STATUS OR SERVICE_QUERY_CONFIG) w3 of (hService, w4) \<Rightarrow>
          if hService = 0 then
            case GetLastError w4 of (err, w5) \<Rightarrow>
            case CloseServiceHandle p hSCManager w5 of (_, w6) \<Rightarrow>
            if err = ERROR_SERVICE_DOES_NOT_EXIST
            then (Inr (JSObject
                    (obj_Set ''pid'' (JSNumber 0)
                    (obj_Set ''state'' (JSString ''not_found'')
                    (obj_Set ''exists'' (JSBoolean False)
                    (obj_Set ''name'' (JSString nameUtf8) []))))), w6)
            else if err = ERROR_ACCESS_DENIED
            then (Inl (Error (''Access denied opening service '' @ [CHR 0x27] @ nameUtf8 @ [CHR 0x27])), w6)
            else (Inl (Error (''Failed to open service '' @ [CHR 0x27] @ nameUtf8 @ [CHR 0x27]
                              @ '' (error '' @ to_string (unat err) @ '')'')), w6)
          else
            case QueryServiceStatusEx p hService w4 of (ok, ssp, w5) \<Rightarrow>
            case QueryServiceConfigW p hService 0 w5 of (_, configBytes, _, w6) \<Rightarrow>
            case (if 0 < configBytes
                  then (case QueryServiceConfigW p hService configBytes w6 of
                          (got, _, pConfig_lpDisplayName, w7) \<Rightarrow>
                            if got then WideToUtf8 p pConfig_lpDisplayName w7 else ([], w7))
                  else ([], w6)) of (displayName, w8) \<Rightarrow>
            case CloseServiceHandle p hService w8 of (_, w9) \<Rightarrow>
            case CloseServiceHandle p hSCManager w9 of (_, w10) \<Rightarrow>
            if \<not> ok then
              case GetLastError w10 of (err, w11) \<Rightarrow>
              (Inl (Error (''QueryServiceStatusEx failed (error '' @ to_string (unat err) @ '')'')), w11)
            else
              (Inr (JSObject
                 (obj_Set ''displayName'' (JSString displayName)
                 (obj_Set ''pid'' (JSNumber (uint (dwProcessId ssp)))
                 (obj_Set ''state'' (JSString (StateToString (dwCurrentState ssp)))
                 (obj_Set ''exists'' (JSBoolean True)
                 (obj_Set ''name'' (JSString nameUtf8) [])))))), w10))"

text \<open>
  The loop of \<^verbatim>\<open>ListServices\<close> over the \<^verbatim>\<open>servicesReturned\<close> entries of the buffer,
  one object per entry, in the order of the buffer.
\<close>
fun service_objects ::
  "platform \<Rightarrow> ENUM_SERVICE_STATUS_PROCESSW list \<Rightarrow> world \<Rightarrow> js_value list \<times> world" where
  "service_objects p [] w = ([], w)"
| "service_objects p (s # ss) w =
     (case WideToUtf8 p (lpServiceName s) w of (name, w1) \<Rightarrow>
      case WideToUtf8 p (lpDisplayName s) w1 of (displayName, w2) \<Rightarrow>
      case service_objects p ss w2 of (objs, w3) \<Rightarrow>
        (JSObject
           (obj_Set ''exists'' (JSBoolean True)
           (obj_Set ''pid'' (JSNumber (uint (dwProcessId (ServiceStatusProcess s))))
           (obj_Set ''state'' (JSString (StateToString (dwCurrentState (ServiceStatusProcess s))))
           (obj_Set ''displayName'' (JSString displayName)
           (obj_Set ''name'' (JSString name) []))))) # objs, w3))"

text \<open>\<^verbatim>\<open>ListServices\<close>, lines 158 to 212.\<close>
definition ListServices :: "platform \<Rightarrow> js_value list \<Rightarrow> world \<Rightarrow> js_result \<times> world" where
  "ListServices p info w =
     (case OpenSCManagerW p (SC_MANAGER_CONNECT OR SC_MANAGER_ENUMERATE_SERVICE) w of (hSCManager, w1) \<Rightarrow>
      if hSCManager = 0 then
        case GetLastError w1 of (err, w2) \<Rightarrow>
        if err = ERROR_ACCESS_DENIED
        then (Inl (Error ''Access denied opening Service Control Manager''), w2)
        else (Inl (Error (''Failed to open Service Control Manager (error '' @ to_string (unat err) @ '')'')), w2)
      else
        case EnumServicesStatusExW p hSCManager 0 0 w1 of (_, sizing, w2) \<Rightarrow>
        let bytesNeeded = enum_bytes_needed sizing; resumeHandle = enum_resume sizing in
        case EnumServicesStatusExW p hSCManager bytesNeeded resumeHandle w2 of (ok, filled, w3) \<Rightarrow>
        case CloseServiceHandle p hSCManager w3 of (_, w4) \<Rightarrow>
        if \<not> ok then
          case GetLastError w4 of (err, w5) \<Rightarrow>
          (Inl (Error (''EnumServicesStatusExW failed (error '' @ to_string (unat err) @ '')'')), w5)
        else
          case service_objects p (enum_services filled) w4 of (arr, w5) \<Rightarrow>
          (Inr (JSArray arr), w5))"

text \<open>
  The world in which \<^verbatim>\<open>ServiceExists\<close> and \<^verbatim>\<open>GetServiceStatus\<close> ask for the session:
  the name has gone through its two \<^verbatim>\<open>MultiByteToWideChar\<close> calls.
\<close>
definition name_converted :: "platform \<Rightarrow> string \<Rightarrow> world \<Rightarrow> world" where
  "name_converted p nameUtf8 w =
     snd (snd (MultiByteToWideChar p (c_str nameUtf8) (Suc (utf16_units (c_str nameUtf8)))
       (snd (snd (MultiByteToWideChar p (c_str nameUtf8) 0 w)))))"

section \<open>Sample hosts\<close>

text \<open>
  Concrete platforms on which the operations can be run. On \<open>host\<close> the service
  \<^verbatim>\<open>Spooler\<close> is registered and running, every other name is unknown, and the sizing
  calls answer as Windows does (\<^verbatim>\<open>ERROR_INSUFFICIENT_BUFFER\<close> = 122,
  \<^verbatim>\<open>ERROR_MORE_DATA\<close> = 234), and a call that succeeds leaves the last error alone.
  The other hosts differ from it in one answer.
\<close>

definition boot :: world where
  "boot = \<lparr>last_error = 0, handles = [], allocated = 0, trace = []\<rparr>"

definition host_services :: "ENUM_SERVICE_STATUS_PROCESSW list" where
  "host_services =
     [\<lparr>lpServiceName = Some ''Spooler'', lpDisplayName = Some ''Print Spooler'',
       ServiceStatusProcess = \<lparr>dwCurrentState = SERVICE_RUNNING, dwProcessId = 1234\<rparr>\<rparr>,
      \<lparr>lpServiceName = Some ''Fax'', lpDisplayName = Some ''Fax'',
       ServiceStatusProcess = \<lparr>dwCurrentState = SERVICE_STOPPED, dwProcessId = 0\<rparr>\<rparr>]"

definition host :: platform where
  "host =
     \<lparr>on_success = (\<lambda>w c. None),
      scm_open = (\<lambda>w. None),
      svc_open = (\<lambda>w h name.
         if name = ''Spooler'' then None
         else if name = [] then Some ERROR_INVALID_NAME
         else Some ERROR_SERVICE_DOES_NOT_EXIST),
      status_query = (\<lambda>w h. Inr \<lparr>dwCurrentState = SERVICE_RUNNING, dwProcessId = 1234\<rparr>),
      config_query = (\<lambda>w h cb.
         if cb < 300
         then \<lparr>cfg_error = Some 122, cfg_bytes_needed = 300, cfg_display_name = None\<rparr>
         else \<lparr>cfg_error = None, cfg_bytes_needed = 300, cfg_display_name = Some ''Print Spooler''\<rparr>),
      enum_query = (\<lambda>w h cb resume.
         if cb < 200
         then \<lparr>enum_error = Some 234, enum_bytes_needed = 200, enum_services = [], enum_resume = 0\<rparr>
         else \<lparr>enum_error = None, enum_bytes_needed = 0, enum_services = host_services,
               enum_resume = 0\<rparr>)\<rparr>"

definition host_manager_denied :: platform where
  "host_manager_denied = host\<lparr>scm_open := (\<lambda>w. Some ERROR_ACCESS_DENIED)\<rparr>"

definition host_service_denied :: platform where
  "host_service_denied = host\<lparr>svc_open := (\<lambda>w h name. Some ERROR_ACCESS_DENIED)\<rparr>"

text \<open>The status query fails with \<^verbatim>\<open>ERROR_SHUTDOWN_IN_PROGRESS\<close> = 1115.\<close>
definition host_status_fails :: platform where
  "host_status_fails = host\<lparr>status_query := (\<lambda>w h. Inl 1115)\<rparr>"

text \<open>The platform reports a state code that \<^verbatim>\<open>winsvc.h\<close> does not name.\<close>
definition host_unknown_state :: platform where
  "host_unknown_state = host\<lparr>status_query := (\<lambda>w h. Inr \<lparr>dwCurrentState = 99, dwProcessId = 1234\<rparr>)\<rparr>"

text \<open>The configuration query fails even with the buffer it asked for.\<close>
definition host_config_fails :: platform where
  "host_config_fails =
     host\<lparr>config_query := (\<lambda>w h cb.
       \<lparr>cfg_error = Some (if cb < 300 then 122 else 1115), cfg_bytes_needed = 300, cfg_display_name = None\<rparr>)\<rparr>"

text \<open>The list of services grows between the sizing call and the enumeration.\<close>
definition host_enum_fails :: platform where
  "host_enum_fails =
     host\<lparr>enum_query := (\<lambda>w h cb resume.
       \<lparr>enum_error = Some 234, enum_bytes_needed = (if cb < 200 then 200 else 400),
        enum_services = [], enum_resume = 0\<rparr>)\<rparr>"

text \<open>
  As \<open>host_enum_fails\<close>, and a \<^verbatim>\<open>CloseServiceHandle\<close> that succeeds sets the thread's
  last error to 0.
\<close>
definition host_close_resets :: platform where
  "host_close_resets =
     host_enum_fails\<lparr>on_success := (\<lambda>w c. case c of CloseServiceHandle_call h \<Rightarrow> Some 0 | _ \<Rightarrow> None)\<rparr>"

section \<open>What each platform call does to the open handles\<close>

lemmas api_defs = OpenSCManagerW_def OpenServiceW_def CloseServiceHandle_def QueryServiceStatusEx_def
  QueryServiceConfigW_def EnumServicesStatusExW_def MultiByteToWideChar_def WideCharToMultiByte_def
  GetLastError_def SetLastError_def succeeded_def logged_def grant_def

lemma nat_int_succ: "nat (int n + 1) = Suc n"
  by simp

lemma handles_GetLastError: "handles (snd (GetLastError w)) = handles w"
  by (simp add: api_defs)

lemma handles_MultiByteToWideChar: "handles (snd (snd (MultiByteToWideChar p s n w))) = handles w"
  by (simp add: api_defs split: option.splits)

lemma handles_WideToUtf8: "handles (snd (WideToUtf8 p wide w)) = handles w"
  by (simp add: WideToUtf8_def api_defs split: option.splits)

lemma handles_OpenSCManagerW:
  "handles (snd (OpenSCManagerW p a w)) =
     (if fst (OpenSCManagerW p a w) = 0 then handles w else fst (OpenSCManagerW p a w) # handles w)"
  by (simp add: api_defs Let_def split: option.splits)

lemma handles_OpenServiceW:
  "handles (snd (OpenServiceW p h n a w)) =
     (if fst (OpenServiceW p h n a w) = 0 then handles w else fst (OpenServiceW p h n a w) # handles w)"
  by (simp add: api_defs Let_def split: option.splits)

lemma handles_CloseServiceHandle: "handles (snd (CloseServiceHandle p h w)) = remove1 h (handles w)"
  by (simp add: CloseServiceHandle_def SetLastError_def logged_def remove1_idem)

lemma handles_QueryServiceStatusEx: "handles (snd (snd (QueryServiceStatusEx p h w))) = handles w"
  by (simp add: api_defs split: sum.splits option.splits)

lemma handles_QueryServiceConfigW:
  "handles (snd (snd (snd (QueryServiceConfigW p h cb w)))) = handles w"
  by (simp add: api_defs Let_def split: option.splits)

lemma handles_EnumServicesStatusExW:
  "handles (snd (snd (EnumServicesStatusExW p h cb r w))) = handles w"
  by (simp add: api_defs Let_def split: option.splits)

lemmas handles_api = handles_GetLastError handles_MultiByteToWideChar handles_WideToUtf8
  handles_OpenSCManagerW handles_OpenServiceW handles_CloseServiceHandle handles_QueryServiceStatusEx
  handles_QueryServiceConfigW handles_EnumServicesStatusExW

lemma handles_service_objects: "handles (snd (service_objects p ss w)) = handles w"
  by (induction ss arbitrary: w) (simp_all add: split_def handles_WideToUtf8)

lemma handles_ServiceExists: "handles (snd (ServiceExists p info w)) = handles w"
  by (simp add: ServiceExists_def Let_def split_def handles_api)

lemma handles_GetServiceStatus: "handles (snd (GetServiceStatus p info w)) = handles w"
  by (simp add: GetServiceStatus_def Let_def split_def handles_api)

lemma handles_ListServices: "handles (snd (ListServices p info w)) = handles w"
  by (simp add: ListServices_def Let_def split_def handles_api handles_service_objects)

section \<open>What each platform call does to the log\<close>

lemma trace_GetLastError: "trace (snd (GetLastError w)) = trace w @ [GetLastError_call]"
  by (simp add: api_defs)

lemma trace_OpenSCManagerW: "trace (snd (OpenSCManagerW p a w)) = trace w @ [OpenSCManagerW_call a]"
  by (simp add: api_defs Let_def split: option.splits)

lemma trace_OpenServiceW: "trace (snd (OpenServiceW p h n a w)) = trace w @ [OpenServiceW_call h n a]"
  by (simp add: api_defs Let_def split: option.splits)

lemma trace_CloseServiceHandle: "trace (snd (CloseServiceHandle p h w)) = trace w @ [CloseServiceHandle_call h]"
  by (simp add: api_defs split: option.splits)

lemma trace_QueryServiceStatusEx:
  "trace (snd (snd (QueryServiceStatusEx p h w))) = trace w @ [QueryServiceStatusEx_call h]"
  by (simp add: api_defs split: sum.splits option.splits)

lemma trace_QueryServiceConfigW:
  "trace (snd (snd (snd (QueryServiceConfigW p h cb w)))) = trace w @ [QueryServiceConfigW_call h cb]"
  by (simp add: api_defs Let_def split: option.splits)

lemma trace_EnumServicesStatusExW:
  "trace (snd (snd (EnumServicesStatusExW p h cb r w))) = trace w @ [EnumServicesStatusExW_call h cb r]"
  by (simp add: api_defs Let_def split: option.splits)

lemma trace_MultiByteToWideChar:
  "trace (snd (snd (MultiByteToWideChar p s n w))) = trace w @ [MultiByteToWideChar_call s n]"
  by (simp add: api_defs split: option.splits)

lemma fst_MultiByteToWideChar: "fst (MultiByteToWideChar p s 0 w) = int (utf16_units s) + 1"
  by (simp add: MultiByteToWideChar_def)

lemma text_MultiByteToWideChar: "fst (snd (MultiByteToWideChar p s (Suc (utf16_units s)) w)) = s"
  by (simp add: MultiByteToWideChar_def)

text \<open>The name of two bytes that is one character takes a buffer of two units, terminator included.\<close>
lemma MultiByteToWideChar_counts_units: "fst (MultiByteToWideChar p [CHR 0xC3, CHR 0xA9] 0 w) = 2"
  by (simp add: fst_MultiByteToWideChar)

lemmas name_conversion = name_converted_def fst_MultiByteToWideChar text_MultiByteToWideChar nat_int_succ

lemma trace_name_converted:
  "trace (name_converted p name w) =
     trace w @ [MultiByteToWideChar_call (c_str name) 0,
                MultiByteToWideChar_call (c_str name) (Suc (utf16_units (c_str name)))]"
  by (simp add: name_converted_def trace_MultiByteToWideChar)

lemma trace_WideToUtf8_calls:
  "trace (snd (WideToUtf8 p wide w)) =
     trace w @ (case wide of None \<Rightarrow> []
                | Some ws \<Rightarrow> [WideCharToMultiByte_call ws 0, WideCharToMultiByte_call ws (Suc (length ws))])"
  by (simp add: WideToUtf8_def api_defs nat_int_succ split: option.splits)

lemma trace_WideToUtf8: "\<exists>cs. trace (snd (WideToUtf8 p wide w)) = trace w @ cs"
  by (simp add: trace_WideToUtf8_calls)

lemma trace_service_objects: "\<exists>cs. trace (snd (service_objects p ss w)) = trace w @ cs"
proof (induction ss arbitrary: w)
  case Nil
  show ?case by simp
next
  case (Cons s ss)
  let ?wa = "snd (WideToUtf8 p (lpServiceName s) w)"
  let ?wb = "snd (WideToUtf8 p (lpDisplayName s) ?wa)"
  obtain c1 where c1: "trace ?wa = trace w @ c1"
    using trace_WideToUtf8 by blast
  obtain c2 where c2: "trace ?wb = trace ?wa @ c2"
    using trace_WideToUtf8 by blast
  obtain c3 where c3: "trace (snd (service_objects p ss ?wb)) = trace ?wb @ c3"
    using Cons.IH by blast
  show ?case
    by (simp add: split_def c1 c2 c3)
qed

lemmas trace_api = trace_GetLastError trace_OpenSCManagerW trace_OpenServiceW trace_CloseServiceHandle
  trace_QueryServiceStatusEx trace_QueryServiceConfigW trace_EnumServicesStatusExW

lemma lookups_begin:
  "\<exists>cs. trace (snd (ServiceExists p (JSString name # rest) w)) =
          trace w @ [MultiByteToWideChar_call (c_str name) 0,
                     MultiByteToWideChar_call (c_str name) (Suc (utf16_units (c_str name))),
                     OpenSCManagerW_call (SC_MANAGER_CONNECT OR SC_MANAGER_ENUMERATE_SERVICE)] @ cs"
  "\<exists>cs. trace (snd (GetServiceStatus p (JSString name # rest) w)) =
          trace w @ [MultiByteToWideChar_call (c_str name) 0,
                     MultiByteToWideChar_call (c_str name) (Suc (utf16_units (c_str name))),
                     OpenSCManagerW_call (SC_MANAGER_CONNECT OR SC_MANAGER_ENUMERATE_SERVICE)] @ cs"
  by (simp_all add: ServiceExists_def GetServiceStatus_def Let_def split_def trace_api
      trace_MultiByteToWideChar fst_MultiByteToWideChar trace_WideToUtf8_calls nat_int_succ)

section \<open>Resource discipline\<close>

text \<open>
  C1. Whatever the platform answers and whatever the arguments are, each of the three
  operations returns with exactly the handles open that were open when it was called:
  every session handle and service handle it was granted has been closed, on the
  success path and on every error path.
\<close>
theorem handles_released_on_every_path:
  "handles (snd (ServiceExists p info w)) = handles w \<and>
   handles (snd (GetServiceStatus p info w)) = handles w \<and>
   handles (snd (ListServices p info w)) = handles w"
  by (simp add: handles_ServiceExists handles_GetServiceStatus handles_ListServices)

text \<open>
  On the sample host the lookups of \<^verbatim>\<open>Spooler\<close> are granted two handles each and the
  enumeration one, and none is open afterwards.
\<close>
theorem handles_released_on_every_path_witness:
  "handles (snd (ServiceExists host [JSString ''Spooler''] boot)) = [] \<and>
   handles (snd (GetServiceStatus host [JSString ''Spooler''] boot)) = [] \<and>
   handles (snd (ListServices host [] boot)) = [] \<and>
   allocated (snd (ServiceExists host [JSString ''Spooler''] boot)) = 2 \<and>
   allocated (snd (GetServiceStatus host [JSString ''Spooler''] boot)) = 2 \<and>
   allocated (snd (ListServices host [] boot)) = 1"
proof -
  have none: "handles boot = []"
    by (simp add: boot_def)
  have granted:
    "allocated (snd (ServiceExists host [JSString ''Spooler''] boot)) = 2"
    "allocated (snd (GetServiceStatus host [JSString ''Spooler''] boot)) = 2"
    "allocated (snd (ListServices host [] boot)) = 1"
    by (simp_all add: ServiceExists_def GetServiceStatus_def ListServices_def host_def host_services_def
        boot_def api_defs WideToUtf8_def c_str_def Let_def)
  show ?thesis
    using handles_released_on_every_path [of host "[JSString ''Spooler'']" boot]
      handles_released_on_every_path [of host "[]" boot] none granted
    by simp
qed

section \<open>Services that are not registered\<close>

text \<open>
  C2. When the session opens and the platform reports for the name that no such service
  is registered (\<^verbatim>\<open>OpenServiceW\<close> fails with \<^verbatim>\<open>ERROR_SERVICE_DOES_NOT_EXIST\<close>),
  \<^verbatim>\<open>serviceExists\<close> returns \<open>false\<close> and \<^verbatim>\<open>getServiceStatus\<close> returns the record with
  \<open>exists = false\<close>, \<open>state = not_found\<close>, \<open>pid = 0\<close> and no \<open>displayName\<close>; neither throws.
\<close>
theorem unregistered_service_is_a_result:
  assumes "OpenSCManagerW p (SC_MANAGER_CONNECT OR SC_MANAGER_ENUMERATE_SERVICE)
             (name_converted p name w) = (hSCManager, w1)"
    and "hSCManager \<noteq> 0"
    and "OpenServiceW p hSCManager (c_str name) (SERVICE_QUERY_STATUS OR SERVICE_QUERY_CONFIG) w1 = (0, w2)"
    and "last_error w2 = ERROR_SERVICE_DOES_NOT_EXIST"
  shows "fst (ServiceExists p (JSString name # rest) w) = Inr (JSBoolean False) \<and>
         fst (GetServiceStatus p (JSString name # rest) w) =
           Inr (JSObject [(''name'', JSString name), (''exists'', JSBoolean False),
                          (''state'', JSString ''not_found''), (''pid'', JSNumber 0)])"
  using assms
  by (simp add: ServiceExists_def GetServiceStatus_def name_conversion
      GetLastError_def Let_def split_def)

theorem unregistered_service_is_a_result_witness:
  "fst (ServiceExists host [JSString ''NoSuchServiceXYZ123''] boot) = Inr (JSBoolean False) \<and>
   fst (GetServiceStatus host [JSString ''NoSuchServiceXYZ123''] boot) =
     Inr (JSObject [(''name'', JSString ''NoSuchServiceXYZ123''), (''exists'', JSBoolean False),
                    (''state'', JSString ''not_found''), (''pid'', JSNumber 0)])"
proof -
  let ?w1 = "snd (OpenSCManagerW host (SC_MANAGER_CONNECT OR SC_MANAGER_ENUMERATE_SERVICE)
                    (name_converted host ''NoSuchServiceXYZ123'' boot))"
  let ?w2 = "snd (OpenServiceW host 1 (c_str ''NoSuchServiceXYZ123'')
                    (SERVICE_QUERY_STATUS OR SERVICE_QUERY_CONFIG) ?w1)"
  have session: "OpenSCManagerW host (SC_MANAGER_CONNECT OR SC_MANAGER_ENUMERATE_SERVICE)
                   (name_converted host ''NoSuchServiceXYZ123'' boot) = (1, ?w1)"
    by (simp add: api_defs host_def boot_def name_converted_def)
  have granted: "(1::nat) \<noteq> 0"
    by simp
  have service: "OpenServiceW host 1 (c_str ''NoSuchServiceXYZ123'')
                   (SERVICE_QUERY_STATUS OR SERVICE_QUERY_CONFIG) ?w1 = (0, ?w2)"
    by (simp add: api_defs host_def c_str_def)
  have absent: "last_error ?w2 = ERROR_SERVICE_DOES_NOT_EXIST"
    by (simp add: api_defs host_def c_str_def)
  show ?thesis
    using unregistered_service_is_a_result [OF session granted service absent, of "[]"] .
qed

section \<open>Argument validation\<close>

text \<open>
  C3, as the code has it. When the name argument is missing or is not a string, both
  lookups throw the \<^verbatim>\<open>TypeError\<close> and leave the world as it was: no session is opened
  and no platform call of any kind is made. The check is on the type only: with a string
  for the name, also the empty one, both lookups convert it (the sizing call, then the
  call that fills the buffer) and ask for the session.
\<close>
theorem invalid_argument_before_platform:
  "(length info < 1 \<or> \<not> IsString (info ! 0) \<longrightarrow>
      ServiceExists p info w = (Inl (TypeError ''Service name (string) expected''), w) \<and>
      GetServiceStatus p info w = (Inl (TypeError ''Service name (string) expected''), w)) \<and>
   (\<exists>n cs. trace (snd (ServiceExists p (JSString name # rest) w)) =
          trace w @ [MultiByteToWideChar_call (c_str name) 0,
                     MultiByteToWideChar_call (c_str name) n,
                     OpenSCManagerW_call (SC_MANAGER_CONNECT OR SC_MANAGER_ENUMERATE_SERVICE)] @ cs) \<and>
   (\<exists>n cs. trace (snd (GetServiceStatus p (JSString name # rest) w)) =
          trace w @ [MultiByteToWideChar_call (c_str name) 0,
                     MultiByteToWideChar_call (c_str name) n,
                     OpenSCManagerW_call (SC_MANAGER_CONNECT OR SC_MANAGER_ENUMERATE_SERVICE)] @ cs)"
proof (intro conjI impI)
  assume "length info < 1 \<or> \<not> IsString (info ! 0)"
  then show "ServiceExists p info w = (Inl (TypeError ''Service name (string) expected''), w)"
    and "GetServiceStatus p info w = (Inl (TypeError ''Service name (string) expected''), w)"
    by (simp_all add: ServiceExists_def GetServiceStatus_def)
next
  show "\<exists>n cs. trace (snd (ServiceExists p (JSString name # rest) w)) =
          trace w @ [MultiByteToWideChar_call (c_str name) 0,
                     MultiByteToWideChar_call (c_str name) n,
                     OpenSCManagerW_call (SC_MANAGER_CONNECT OR SC_MANAGER_ENUMERATE_SERVICE)] @ cs"
    using lookups_begin(1) [of p name rest w] by blast
next
  show "\<exists>n cs. trace (snd (GetServiceStatus p (JSString name # rest) w)) =
          trace w @ [MultiByteToWideChar_call (c_str name) 0,
                     MultiByteToWideChar_call (c_str name) n,
                     OpenSCManagerW_call (SC_MANAGER_CONNECT OR SC_MANAGER_ENUMERATE_SERVICE)] @ cs"
    using lookups_begin(2) [of p name rest w] by blast
qed

theorem invalid_argument_before_platform_witness:
  "ServiceExists host [] boot = (Inl (TypeError ''Service name (string) expected''), boot) \<and>
   GetServiceStatus host [JSNumber 123] boot = (Inl (TypeError ''Service name (string) expected''), boot) \<and>
   (\<exists>n cs. trace (snd (GetServiceStatus host [JSString []] boot)) =
          [MultiByteToWideChar_call [] 0, MultiByteToWideChar_call [] n,
           OpenSCManagerW_call (SC_MANAGER_CONNECT OR SC_MANAGER_ENUMERATE_SERVICE)] @ cs)"
proof -
  have missing: "length ([] :: js_value list) < 1 \<or> \<not> IsString ([] ! 0)"
    by simp
  have wrong: "length [JSNumber 123] < 1 \<or> \<not> IsString ([JSNumber 123] ! 0)"
    by simp
  have fresh: "trace boot = []" and empty: "c_str [] = []"
    by (simp_all add: boot_def c_str_def)
  show ?thesis
    using invalid_argument_before_platform [of "[]" host boot "[]" "[]"]
      invalid_argument_before_platform [of "[JSNumber 123]" host boot "[]" "[]"]
      missing wrong fresh empty
    by simp
qed

text \<open>
  C3 as stated fails for the empty string: \<^verbatim>\<open>serviceExists("")\<close> passes the validation,
  opens a session, asks the platform for the service named by the empty string and
  reports the platform's answer (here \<^verbatim>\<open>ERROR_INVALID_NAME\<close>), not an invalid argument.
\<close>
theorem empty_name_reaches_platform:
  "fst (ServiceExists host [JSString []] boot) =
     Inl (Error (''Failed to open service '' @ [CHR 0x27, CHR 0x27] @ '' (error 123)'')) \<and>
   trace (snd (ServiceExists host [JSString []] boot)) =
     [MultiByteToWideChar_call [] 0, MultiByteToWideChar_call [] 1,
      OpenSCManagerW_call (SC_MANAGER_CONNECT OR SC_MANAGER_ENUMERATE_SERVICE),
      OpenServiceW_call 1 [] (SERVICE_QUERY_STATUS OR SERVICE_QUERY_CONFIG),
      GetLastError_call, CloseServiceHandle_call 1]"
  by (simp add: ServiceExists_def host_def boot_def api_defs c_str_def Let_def
      ERROR_INVALID_NAME_def ERROR_SERVICE_DOES_NOT_EXIST_def ERROR_ACCESS_DENIED_def to_string.simps)

section \<open>The status query\<close>

lemma GetServiceStatus_found:
  assumes "OpenSCManagerW p (SC_MANAGER_CONNECT OR SC_MANAGER_ENUMERATE_SERVICE)
             (name_converted p name w) = (hSCManager, w1)"
    and "hSCManager \<noteq> 0"
    and "OpenServiceW p hSCManager (c_str name) (SERVICE_QUERY_STATUS OR SERVICE_QUERY_CONFIG) w1 = (hService, w2)"
    and "hService \<noteq> 0"
    and "QueryServiceStatusEx p hService w2 = (True, ssp, w3)"
  shows "\<exists>displayName. fst (GetServiceStatus p (JSString name # rest) w) =
           Inr (JSObject [(''name'', JSString name), (''exists'', JSBoolean True),
                          (''state'', JSString (StateToString (dwCurrentState ssp))),
                          (''pid'', JSNumber (uint (dwProcessId ssp))),
                          (''displayName'', JSString displayName)])"
  using assms
  by (simp add: GetServiceStatus_def name_conversion
      Let_def split_def)

lemma GetServiceStatus_query_failed:
  assumes "OpenSCManagerW p (SC_MANAGER_CONNECT OR SC_MANAGER_ENUMERATE_SERVICE)
             (name_converted p name w) = (hSCManager, w1)"
    and "hSCManager \<noteq> 0"
    and "OpenServiceW p hSCManager (c_str name) (SERVICE_QUERY_STATUS OR SERVICE_QUERY_CONFIG) w1 = (hService, w2)"
    and "hService \<noteq> 0"
    and "QueryServiceStatusEx p hService w2 = (False, ssp, w3)"
  shows "\<exists>code. fst (GetServiceStatus p (JSString name # rest) w) =
           Inl (Error (''QueryServiceStatusEx failed (error '' @ to_string code @ '')''))"
  using assms
  by (auto simp add: GetServiceStatus_def name_conversion
      Let_def split_def)

text \<open>
  C4 at a failing input. On \<open>host_status_fails\<close> the service opens and
  \<^verbatim>\<open>QueryServiceStatusEx\<close> fails with 1115. \<^verbatim>\<open>GetServiceStatus\<close> reads
  \<^verbatim>\<open>GetLastError\<close> only after the two \<^verbatim>\<open>QueryServiceConfigW\<close> calls and the two
  closes; the sizing call has failed with 122 in between, and 122 is the code the
  error carries.
\<close>
theorem status_failure_reports_later_error:
  "fst (GetServiceStatus host_status_fails [JSString ''Spooler''] boot) =
     Inl (Error ''QueryServiceStatusEx failed (error 122)'') \<and>
   trace (snd (GetServiceStatus host_status_fails [JSString ''Spooler''] boot)) =
     [MultiByteToWideChar_call ''Spooler'' 0, MultiByteToWideChar_call ''Spooler'' 8,
      OpenSCManagerW_call (SC_MANAGER_CONNECT OR SC_MANAGER_ENUMERATE_SERVICE),
      OpenServiceW_call 1 ''Spooler'' (SERVICE_QUERY_STATUS OR SERVICE_QUERY_CONFIG),
      QueryServiceStatusEx_call 2, QueryServiceConfigW_call 2 0, QueryServiceConfigW_call 2 300,
      WideCharToMultiByte_call ''Print Spooler'' 0, WideCharToMultiByte_call ''Print Spooler'' 14,
      CloseServiceHandle_call 2, CloseServiceHandle_call 1, GetLastError_call]"
  by (simp add: GetServiceStatus_def host_status_fails_def host_def boot_def api_defs WideToUtf8_def
      c_str_def Let_def to_string.simps)

text \<open>The error of the failed status query itself, 1115, is not the one reported.\<close>
theorem status_failure_reports_later_error_witness:
  "QueryServiceStatusEx host_status_fails 2 boot =
     (False, \<lparr>dwCurrentState = 0, dwProcessId = 0\<rparr>,
      SetLastError 1115 (logged (QueryServiceStatusEx_call 2) boot)) \<and>
   fst (GetServiceStatus host_status_fails [JSString ''Spooler''] boot) \<noteq>
     Inl (Error ''QueryServiceStatusEx failed (error 1115)'')"
  using status_failure_reports_later_error
  by (simp add: QueryServiceStatusEx_def host_status_fails_def host_def)

text \<open>
  C5. When session and service open and the status query succeeds, a failing display-name
  lookup (the sizing call reports no size, or the call with the sized buffer fails) does
  not fail the call: the record is returned with \<open>displayName\<close> the empty string.
\<close>
theorem display_name_is_best_effort:
  assumes "OpenSCManagerW p (SC_MANAGER_CONNECT OR SC_MANAGER_ENUMERATE_SERVICE)
             (name_converted p name w) = (hSCManager, w1)"
    and "hSCManager \<noteq> 0"
    and "OpenServiceW p hSCManager (c_str name) (SERVICE_QUERY_STATUS OR SERVICE_QUERY_CONFIG) w1 = (hService, w2)"
    and "hService \<noteq> 0"
    and "QueryServiceStatusEx p hService w2 = (True, ssp, w3)"
    and "QueryServiceConfigW p hService 0 w3 = (sized, configBytes, unsized, w4)"
    and "configBytes = 0 \<or> fst (QueryServiceConfigW p hService configBytes w4) = False"
  shows "fst (GetServiceStatus p (JSString name # rest) w) =
           Inr (JSObject [(''name'', JSString name), (''exists'', JSBoolean True),
                          (''state'', JSString (StateToString (dwCurrentState ssp))),
                          (''pid'', JSNumber (uint (dwProcessId ssp))),
                          (''displayName'', JSString [])])"
  using assms
  by (auto simp add: GetServiceStatus_def name_conversion
      Let_def split_def)

theorem display_name_is_best_effort_witness:
  "fst (GetServiceStatus host_config_fails [JSString ''Spooler''] boot) =
     Inr (JSObject [(''name'', JSString ''Spooler''), (''exists'', JSBoolean True),
                    (''state'', JSString ''running''), (''pid'', JSNumber 1234),
                    (''displayName'', JSString [])])"
proof -
  let ?w1 = "snd (OpenSCManagerW host_config_fails (SC_MANAGER_CONNECT OR SC_MANAGER_ENUMERATE_SERVICE)
                    (name_converted host_config_fails ''Spooler'' boot))"
  let ?w2 = "snd (OpenServiceW host_config_fails 1 (c_str ''Spooler'')
                    (SERVICE_QUERY_STATUS OR SERVICE_QUERY_CONFIG) ?w1)"
  let ?w3 = "snd (snd (QueryServiceStatusEx host_config_fails 2 ?w2))"
  let ?w4 = "snd (snd (snd (QueryServiceConfigW host_config_fails 2 0 ?w3)))"
  have session: "OpenSCManagerW host_config_fails (SC_MANAGER_CONNECT OR SC_MANAGER_ENUMERATE_SERVICE)
                   (name_converted host_config_fails ''Spooler'' boot) = (1, ?w1)"
    by (simp add: api_defs host_config_fails_def host_def boot_def name_converted_def)
  have service: "OpenServiceW host_config_fails 1 (c_str ''Spooler'')
                   (SERVICE_QUERY_STATUS OR SERVICE_QUERY_CONFIG) ?w1 = (2, ?w2)"
    by (simp add: api_defs host_config_fails_def host_def boot_def name_converted_def c_str_def)
  have status: "QueryServiceStatusEx host_config_fails 2 ?w2 =
                  (True, \<lparr>dwCurrentState = SERVICE_RUNNING, dwProcessId = 1234\<rparr>, ?w3)"
    by (simp add: QueryServiceStatusEx_def host_config_fails_def host_def)
  have sizing: "QueryServiceConfigW host_config_fails 2 0 ?w3 = (False, 300, None, ?w4)"
    by (simp add: QueryServiceConfigW_def host_config_fails_def host_def)
  have failing: "(300 :: DWORD) = 0 \<or> fst (QueryServiceConfigW host_config_fails 2 300 ?w4) = False"
    by (simp add: QueryServiceConfigW_def host_config_fails_def host_def)
  have running: "StateToString SERVICE_RUNNING = ''running''"
    by (simp add: StateToString_def SERVICE_STOPPED_def SERVICE_START_PENDING_def SERVICE_STOP_PENDING_def
        SERVICE_RUNNING_def)
  have one: "(1::nat) \<noteq> 0" and two: "(2::nat) \<noteq> 0"
    by simp_all
  show ?thesis
    using display_name_is_best_effort [OF session one service two status sizing failing, of "[]"] running
    by simp
qed

section \<open>The state mapping\<close>

text \<open>
  C6. \<^verbatim>\<open>StateToString\<close> sends each of the seven codes of \<^verbatim>\<open>winsvc.h\<close> to its name and
  every other code to \<open>unknown\<close>; and whatever code a successful status query reports,
  \<^verbatim>\<open>getServiceStatus\<close> returns a record whose \<open>state\<close> is that string: no code makes it fail.
\<close>
theorem state_code_mapping:
  "StateToString SERVICE_STOPPED = ''stopped'' \<and>
   StateToString SERVICE_START_PENDING = ''start_pending'' \<and>
   StateToString SERVICE_STOP_PENDING = ''stop_pending'' \<and>
   StateToString SERVICE_RUNNING = ''running'' \<and>
   StateToString SERVICE_CONTINUE_PENDING = ''continue_pending'' \<and>
   StateToString SERVICE_PAUSE_PENDING = ''pause_pending'' \<and>
   StateToString SERVICE_PAUSED = ''paused'' \<and>
   (state \<notin> {SERVICE_STOPPED, SERVICE_START_PENDING, SERVICE_STOP_PENDING, SERVICE_RUNNING,
               SERVICE_CONTINUE_PENDING, SERVICE_PAUSE_PENDING, SERVICE_PAUSED}
      \<longrightarrow> StateToString state = ''unknown'') \<and>
   (OpenSCManagerW p (SC_MANAGER_CONNECT OR SC_MANAGER_ENUMERATE_SERVICE)
        (name_converted p name w) = (hSCManager, w1) \<and> hSCManager \<noteq> 0 \<and>
    OpenServiceW p hSCManager (c_str name) (SERVICE_QUERY_STATUS OR SERVICE_QUERY_CONFIG) w1 = (hService, w2) \<and>
    hService \<noteq> 0 \<and> QueryServiceStatusEx p hService w2 = (True, ssp, w3)
      \<longrightarrow> (\<exists>v. fst (GetServiceStatus p (JSString name # rest) w) = Inr v \<and>
                property v ''state'' = Some (JSString (StateToString (dwCurrentState ssp)))))"
proof -
  have named:
    "StateToString SERVICE_STOPPED = ''stopped''"
    "StateToString SERVICE_START_PENDING = ''start_pending''"
    "StateToString SERVICE_STOP_PENDING = ''stop_pending''"
    "StateToString SERVICE_RUNNING = ''running''"
    "StateToString SERVICE_CONTINUE_PENDING = ''continue_pending''"
    "StateToString SERVICE_PAUSE_PENDING = ''pause_pending''"
    "StateToString SERVICE_PAUSED = ''paused''"
    by (simp_all add: StateToString_def SERVICE_STOPPED_def SERVICE_START_PENDING_def
        SERVICE_STOP_PENDING_def SERVICE_RUNNING_def SERVICE_CONTINUE_PENDING_def
        SERVICE_PAUSE_PENDING_def SERVICE_PAUSED_def)
  have other:
    "state \<notin> {SERVICE_STOPPED, SERVICE_START_PENDING, SERVICE_STOP_PENDING, SERVICE_RUNNING,
                SERVICE_CONTINUE_PENDING, SERVICE_PAUSE_PENDING, SERVICE_PAUSED}
       \<longrightarrow> StateToString state = ''unknown''"
    by (simp add: StateToString_def)
  have carried:
    "OpenSCManagerW p (SC_MANAGER_CONNECT OR SC_MANAGER_ENUMERATE_SERVICE)
        (name_converted p name w) = (hSCManager, w1) \<and> hSCManager \<noteq> 0 \<and>
     OpenServiceW p hSCManager (c_str name) (SERVICE_QUERY_STATUS OR SERVICE_QUERY_CONFIG) w1 = (hService, w2) \<and>
     hService \<noteq> 0 \<and> QueryServiceStatusEx p hService w2 = (True, ssp, w3)
       \<longrightarrow> (\<exists>v. fst (GetServiceStatus p (JSString name # rest) w) = Inr v \<and>
                 property v ''state'' = Some (JSString (StateToString (dwCurrentState ssp))))"
  proof (intro impI, elim conjE)
    assume a: "OpenSCManagerW p (SC_MANAGER_CONNECT OR SC_MANAGER_ENUMERATE_SERVICE)
        (name_converted p name w) = (hSCManager, w1)" "hSCManager \<noteq> 0"
      "OpenServiceW p hSCManager (c_str name) (SERVICE_QUERY_STATUS OR SERVICE_QUERY_CONFIG) w1 = (hService, w2)"
      "hService \<noteq> 0" "QueryServiceStatusEx p hService w2 = (True, ssp, w3)"
    from GetServiceStatus_found [OF a, of rest]
    obtain displayName where
      "fst (GetServiceStatus p (JSString name # rest) w) =
         Inr (JSObject [(''name'', JSString name), (''exists'', JSBoolean True),
                        (''state'', JSString (StateToString (dwCurrentState ssp))),
                        (''pid'', JSNumber (uint (dwProcessId ssp))),
                        (''displayName'', JSString displayName)])"
      by blast
    then show "\<exists>v. fst (GetServiceStatus p (JSString name # rest) w) = Inr v \<and>
                 property v ''state'' = Some (JSString (StateToString (dwCurrentState ssp)))"
      by simp
  qed
  show ?thesis
    using named other carried by blast
qed

theorem state_code_mapping_witness:
  "StateToString 0 = ''unknown'' \<and> StateToString 99 = ''unknown'' \<and>
   (\<exists>v. fst (GetServiceStatus host_unknown_state [JSString ''Spooler''] boot) = Inr v \<and>
        property v ''state'' = Some (JSString ''unknown''))"
proof -
  let ?w1 = "snd (OpenSCManagerW host_unknown_state (SC_MANAGER_CONNECT OR SC_MANAGER_ENUMERATE_SERVICE)
                    (name_converted host_unknown_state ''Spooler'' boot))"
  let ?w2 = "snd (OpenServiceW host_unknown_state 1 (c_str ''Spooler'')
                    (SERVICE_QUERY_STATUS OR SERVICE_QUERY_CONFIG) ?w1)"
  let ?w3 = "snd (snd (QueryServiceStatusEx host_unknown_state 2 ?w2))"
  have session: "OpenSCManagerW host_unknown_state (SC_MANAGER_CONNECT OR SC_MANAGER_ENUMERATE_SERVICE)
                   (name_converted host_unknown_state ''Spooler'' boot) = (1, ?w1)"
    by (simp add: api_defs host_unknown_state_def host_def boot_def name_converted_def)
  have service: "OpenServiceW host_unknown_state 1 (c_str ''Spooler'')
                   (SERVICE_QUERY_STATUS OR SERVICE_QUERY_CONFIG) ?w1 = (2, ?w2)"
    by (simp add: api_defs host_unknown_state_def host_def boot_def name_converted_def c_str_def)
  have status: "QueryServiceStatusEx host_unknown_state 2 ?w2 =
                  (True, \<lparr>dwCurrentState = 99, dwProcessId = 1234\<rparr>, ?w3)"
    by (simp add: QueryServiceStatusEx_def host_unknown_state_def host_def)
  have unnamed:
    "(0 :: DWORD) \<notin> {SERVICE_STOPPED, SERVICE_START_PENDING, SERVICE_STOP_PENDING, SERVICE_RUNNING,
                SERVICE_CONTINUE_PENDING, SERVICE_PAUSE_PENDING, SERVICE_PAUSED}"
    "(99 :: DWORD) \<notin> {SERVICE_STOPPED, SERVICE_START_PENDING, SERVICE_STOP_PENDING, SERVICE_RUNNING,
                SERVICE_CONTINUE_PENDING, SERVICE_PAUSE_PENDING, SERVICE_PAUSED}"
    by (simp_all add: SERVICE_STOPPED_def SERVICE_START_PENDING_def
        SERVICE_STOP_PENDING_def SERVICE_RUNNING_def SERVICE_CONTINUE_PENDING_def
        SERVICE_PAUSE_PENDING_def SERVICE_PAUSED_def)
  have zero: "StateToString 0 = ''unknown''"
    using state_code_mapping [of 0] unnamed(1) by blast
  have ninety_nine: "StateToString 99 = ''unknown''"
    using state_code_mapping [of 99] unnamed(2) by blast
  have "\<exists>v. fst (GetServiceStatus host_unknown_state [JSString ''Spooler''] boot) = Inr v \<and>
        property v ''state'' = Some (JSString (StateToString (dwCurrentState \<lparr>dwCurrentState = 99, dwProcessId = 1234\<rparr>)))"
    using state_code_mapping [of 99 host_unknown_state "''Spooler''" boot 1 ?w1 2 ?w2
        "\<lparr>dwCurrentState = 99, dwProcessId = 1234\<rparr>" ?w3 "[]"] session service status
    by simp
  then show ?thesis
    using zero ninety_nine by simp
qed

section \<open>The records\<close>

lemma fst_WideToUtf8: "fst (WideToUtf8 p wide w) = wide_text wide"
  by (simp add: WideToUtf8_def wide_text_def WideCharToMultiByte_def split: option.splits)

lemma fst_service_objects:
  "fst (service_objects p ss w) =
     map (\<lambda>s. JSObject [(''name'', JSString (wide_text (lpServiceName s))),
                          (''displayName'', JSString (wide_text (lpDisplayName s))),
                          (''state'', JSString (StateToString (dwCurrentState (ServiceStatusProcess s)))),
                          (''pid'', JSNumber (uint (dwProcessId (ServiceStatusProcess s)))),
                          (''exists'', JSBoolean True)]) ss"
  by (induction ss arbitrary: w) (simp_all add: split_def fst_WideToUtf8)

lemma GetServiceStatus_records:
  assumes "fst (GetServiceStatus p info w) = Inr v"
  shows "(property v ''exists'' = Some (JSBoolean True) \<and> (\<exists>d. property v ''displayName'' = Some (JSString d))) \<or>
         (property v ''exists'' = Some (JSBoolean False) \<and> property v ''state'' = Some (JSString ''not_found'') \<and>
          property v ''pid'' = Some (JSNumber 0) \<and> property v ''displayName'' = None)"
  using assms
  by (auto simp add: GetServiceStatus_def Let_def split_def split: if_splits)

lemma ListServices_records:
  assumes "OpenSCManagerW p (SC_MANAGER_CONNECT OR SC_MANAGER_ENUMERATE_SERVICE) w = (hSCManager, w1)"
    and "EnumServicesStatusExW p hSCManager 0 0 w1 = (sized, sizing, w2)"
    and "EnumServicesStatusExW p hSCManager (enum_bytes_needed sizing) (enum_resume sizing) w2 = (ok, filled, w3)"
    and "fst (ListServices p info w) = Inr v"
  shows "v = JSArray (fst (service_objects p (enum_services filled) (snd (CloseServiceHandle p hSCManager w3))))"
  using assms
  by (auto simp add: ListServices_def Let_def split_def split: if_splits)

text \<open>
  C7. A record that \<^verbatim>\<open>getServiceStatus\<close> returns with \<open>exists = false\<close> has
  \<open>state = not_found\<close>, \<open>pid = 0\<close> and no \<open>displayName\<close>. And when \<^verbatim>\<open>listServices\<close>
  returns, it returns one object per entry that the second enumeration call wrote, in
  that order, each with \<open>exists = true\<close> and with the \<open>displayName\<close> of its entry.
\<close>
theorem record_invariants:
  assumes "OpenSCManagerW p (SC_MANAGER_CONNECT OR SC_MANAGER_ENUMERATE_SERVICE) w = (hSCManager, w1)"
    and "EnumServicesStatusExW p hSCManager 0 0 w1 = (sized, sizing, w2)"
    and "EnumServicesStatusExW p hSCManager (enum_bytes_needed sizing) (enum_resume sizing) w2 = (ok, filled, w3)"
  shows "(fst (GetServiceStatus p info w) = Inr v \<and> property v ''exists'' = Some (JSBoolean False) \<longrightarrow>
            property v ''state'' = Some (JSString ''not_found'') \<and>
            property v ''pid'' = Some (JSNumber 0) \<and>
            property v ''displayName'' = None) \<and>
         (fst (ListServices p args w) = Inr listed \<longrightarrow>
            (\<exists>arr. listed = JSArray arr \<and> length arr = length (enum_services filled) \<and>
               (\<forall>i<length arr.
                  property (arr ! i) ''exists'' = Some (JSBoolean True) \<and>
                  property (arr ! i) ''displayName'' =
                    Some (JSString (wide_text (lpDisplayName (enum_services filled ! i)))))))"
proof (intro conjI impI)
  assume "fst (GetServiceStatus p info w) = Inr v \<and> property v ''exists'' = Some (JSBoolean False)"
  then have absent:
    "property v ''state'' = Some (JSString ''not_found'') \<and> property v ''pid'' = Some (JSNumber 0) \<and>
     property v ''displayName'' = None"
    using GetServiceStatus_records [of p info w v] by auto
  from absent show "property v ''state'' = Some (JSString ''not_found'')" by simp
  from absent show "property v ''pid'' = Some (JSNumber 0)" by simp
  from absent show "property v ''displayName'' = None" by simp
next
  assume "fst (ListServices p args w) = Inr listed"
  then have "listed = JSArray (fst (service_objects p (enum_services filled) (snd (CloseServiceHandle p hSCManager w3))))"
    using ListServices_records [OF assms] by simp
  then show "\<exists>arr. listed = JSArray arr \<and> length arr = length (enum_services filled) \<and>
               (\<forall>i<length arr.
                  property (arr ! i) ''exists'' = Some (JSBoolean True) \<and>
                  property (arr ! i) ''displayName'' =
                    Some (JSString (wide_text (lpDisplayName (enum_services filled ! i)))))"
    by (simp add: fst_service_objects)
qed

theorem record_invariants_witness:
  "fst (GetServiceStatus host [JSString ''NoSuchServiceXYZ123''] boot) =
     Inr (JSObject [(''name'', JSString ''NoSuchServiceXYZ123''), (''exists'', JSBoolean False),
                    (''state'', JSString ''not_found''), (''pid'', JSNumber 0)]) \<and>
   property (JSObject [(''name'', JSString ''NoSuchServiceXYZ123''), (''exists'', JSBoolean False),
                    (''state'', JSString ''not_found''), (''pid'', JSNumber 0)]) ''displayName'' = None \<and>
   (\<exists>arr. fst (ListServices host [] boot) = Inr (JSArray arr) \<and> length arr = length host_services \<and>
      (\<forall>i<length arr.
         property (arr ! i) ''exists'' = Some (JSBoolean True) \<and>
         property (arr ! i) ''displayName'' = Some (JSString (wide_text (lpDisplayName (host_services ! i))))))"
proof -
  let ?r1 = "OpenSCManagerW host (SC_MANAGER_CONNECT OR SC_MANAGER_ENUMERATE_SERVICE) boot"
  let ?r2 = "EnumServicesStatusExW host (fst ?r1) 0 0 (snd ?r1)"
  let ?r3 = "EnumServicesStatusExW host (fst ?r1) (enum_bytes_needed (fst (snd ?r2)))
               (enum_resume (fst (snd ?r2))) (snd (snd ?r2))"
  let ?absent = "JSObject [(''name'', JSString ''NoSuchServiceXYZ123''), (''exists'', JSBoolean False),
                    (''state'', JSString ''not_found''), (''pid'', JSNumber 0)]"
  have session: "?r1 = (fst ?r1, snd ?r1)"
    by simp
  have sizing: "?r2 = (fst ?r2, fst (snd ?r2), snd (snd ?r2))"
    by simp
  have filling: "?r3 = (fst ?r3, fst (snd ?r3), snd (snd ?r3))"
    by simp
  have written: "enum_services (fst (snd ?r3)) = host_services"
    by (simp add: api_defs host_def Let_def)
  have looked_up: "fst (GetServiceStatus host [JSString ''NoSuchServiceXYZ123''] boot) = Inr ?absent"
    by (simp add: GetServiceStatus_def host_def boot_def api_defs c_str_def Let_def)
  obtain listed where listed: "fst (ListServices host [] boot) = Inr listed"
    by (simp add: ListServices_def host_def boot_def api_defs Let_def split_def)
  show ?thesis
    using record_invariants [OF session sizing filling, of "[JSString ''NoSuchServiceXYZ123'']" ?absent "[]" listed]
      looked_up listed written
    by auto
qed

section \<open>The enumeration\<close>

lemma ListServices_trace:
  assumes "OpenSCManagerW p (SC_MANAGER_CONNECT OR SC_MANAGER_ENUMERATE_SERVICE) w = (hSCManager, w1)"
    and "hSCManager \<noteq> 0"
    and "EnumServicesStatusExW p hSCManager 0 0 w1 = (sized, sizing, w2)"
    and "EnumServicesStatusExW p hSCManager (enum_bytes_needed sizing) (enum_resume sizing) w2 = (ok, filled, w3)"
  shows "\<exists>cs. trace (snd (ListServices p info w)) =
           trace w @ [OpenSCManagerW_call (SC_MANAGER_CONNECT OR SC_MANAGER_ENUMERATE_SERVICE),
                      EnumServicesStatusExW_call hSCManager 0 0,
                      EnumServicesStatusExW_call hSCManager (enum_bytes_needed sizing) (enum_resume sizing),
                      CloseServiceHandle_call hSCManager] @ cs"
proof -
  have t1: "trace w1 = trace w @ [OpenSCManagerW_call (SC_MANAGER_CONNECT OR SC_MANAGER_ENUMERATE_SERVICE)]"
    using trace_OpenSCManagerW [of p "SC_MANAGER_CONNECT OR SC_MANAGER_ENUMERATE_SERVICE" w] assms(1) by simp
  have t2: "trace w2 = trace w1 @ [EnumServicesStatusExW_call hSCManager 0 0]"
    using trace_EnumServicesStatusExW [of p hSCManager 0 0 w1] assms(3) by simp
  have t3: "trace w3 = trace w2 @
      [EnumServicesStatusExW_call hSCManager (enum_bytes_needed sizing) (enum_resume sizing)]"
    using trace_EnumServicesStatusExW [of p hSCManager "enum_bytes_needed sizing" "enum_resume sizing" w2]
      assms(4) by simp
  obtain cs where cs:
    "trace (snd (service_objects p (enum_services filled) (snd (CloseServiceHandle p hSCManager w3)))) =
       trace (snd (CloseServiceHandle p hSCManager w3)) @ cs"
    using trace_service_objects by blast
  show ?thesis
    using assms
    by (simp add: ListServices_def Let_def split_def trace_api t1 t2 t3 cs)
qed

text \<open>
  When the second enumeration fails with \<open>e\<close>, the error thrown carries \<open>e\<close> on one
  condition: that closing the session leaves the thread's last error as it found it.
  \<^verbatim>\<open>ListServices\<close> reads \<^verbatim>\<open>GetLastError\<close> at line 192, after the close of line 189.
\<close>
lemma ListServices_enum_failed:
  assumes "OpenSCManagerW p (SC_MANAGER_CONNECT OR SC_MANAGER_ENUMERATE_SERVICE) w = (hSCManager, w1)"
    and "hSCManager \<noteq> 0"
    and "EnumServicesStatusExW p hSCManager 0 0 w1 = (sized, sizing, w2)"
    and "EnumServicesStatusExW p hSCManager (enum_bytes_needed sizing) (enum_resume sizing) w2 = (ok, filled, w3)"
    and "enum_error filled = Some e"
  shows "fst (ListServices p info w) =
           Inl (Error (''EnumServicesStatusExW failed (error '' @
                       to_string (unat (last_error (snd (CloseServiceHandle p hSCManager w3)))) @ '')'')) \<and>
         last_error w3 = e"
proof -
  have failed: "\<not> ok" and code: "last_error w3 = e"
    using assms(4,5)
    by (auto simp add: EnumServicesStatusExW_def Let_def SetLastError_def logged_def split: option.splits)
  show ?thesis
    using assms(1-4) failed code
    by (simp add: ListServices_def Let_def split_def GetLastError_def)
qed

text \<open>
  C8 at a failing input. On \<open>host_close_resets\<close> the session opens, the sizing call asks
  for 200 bytes, and the enumeration into the buffer of 200 bytes fails with 234, because
  the list has grown. \<^verbatim>\<open>ListServices\<close> closes the session before it reads
  \<^verbatim>\<open>GetLastError\<close>; the close succeeds and resets the last error, and the error thrown
  carries 0. (The two enumeration calls are the two-phase pattern, on every platform:
  \<open>ListServices_trace\<close>.)
\<close>
theorem enumeration_failure_reports_later_error:
  "fst (ListServices host_close_resets [] boot) =
     Inl (Error ''EnumServicesStatusExW failed (error 0)'') \<and>
   trace (snd (ListServices host_close_resets [] boot)) =
     [OpenSCManagerW_call (SC_MANAGER_CONNECT OR SC_MANAGER_ENUMERATE_SERVICE),
      EnumServicesStatusExW_call 1 0 0, EnumServicesStatusExW_call 1 200 0,
      CloseServiceHandle_call 1, GetLastError_call]"
  by (simp add: ListServices_def host_close_resets_def host_enum_fails_def host_def boot_def api_defs
      Let_def to_string.simps)

text \<open>
  The code of the failed enumeration, 234, is not the one reported there; it is on
  \<open>host_enum_fails\<close>, where the close leaves the last error alone.
\<close>
theorem enumeration_failure_reports_later_error_witness:
  "fst (EnumServicesStatusExW host_close_resets 1 200 0 boot) = False \<and>
   last_error (snd (snd (EnumServicesStatusExW host_close_resets 1 200 0 boot))) = 234 \<and>
   fst (ListServices host_close_resets [] boot) \<noteq>
     Inl (Error ''EnumServicesStatusExW failed (error 234)'') \<and>
   fst (ListServices host_enum_fails [] boot) =
     Inl (Error ''EnumServicesStatusExW failed (error 234)'')"
proof -
  have enumeration:
    "fst (EnumServicesStatusExW host_close_resets 1 200 0 boot) = False"
    "last_error (snd (snd (EnumServicesStatusExW host_close_resets 1 200 0 boot))) = 234"
    by (simp_all add: EnumServicesStatusExW_def host_close_resets_def host_enum_fails_def host_def
        SetLastError_def logged_def Let_def)
  have kept: "fst (ListServices host_enum_fails [] boot) =
      Inl (Error ''EnumServicesStatusExW failed (error 234)'')"
    by (simp add: ListServices_def host_enum_fails_def host_def boot_def api_defs Let_def to_string.simps)
  show ?thesis
    using enumeration_failure_reports_later_error enumeration kept
    by simp
qed

section \<open>Access denied\<close>

text \<open>
  C9. When opening the session is denied, both lookups throw the error that names the
  Service Control Manager; when the session opens and opening the named service is
  denied, both throw the error that names the service. The two messages differ for
  every name.
\<close>
theorem access_denied_names_the_resource:
  "(OpenSCManagerW p (SC_MANAGER_CONNECT OR SC_MANAGER_ENUMERATE_SERVICE)
        (name_converted p name w) = (0, w1) \<and> last_error w1 = ERROR_ACCESS_DENIED
      \<longrightarrow> fst (ServiceExists p (JSString name # rest) w) =
             Inl (Error ''Access denied opening Service Control Manager'') \<and>
           fst (GetServiceStatus p (JSString name # rest) w) =
             Inl (Error ''Access denied opening Service Control Manager'')) \<and>
   (OpenSCManagerW p (SC_MANAGER_CONNECT OR SC_MANAGER_ENUMERATE_SERVICE)
        (name_converted p name w) = (hSCManager, w1) \<and> hSCManager \<noteq> 0 \<and>
    OpenServiceW p hSCManager (c_str name) (SERVICE_QUERY_STATUS OR SERVICE_QUERY_CONFIG) w1 = (0, w2) \<and>
    last_error w2 = ERROR_ACCESS_DENIED
      \<longrightarrow> fst (ServiceExists p (JSString name # rest) w) =
             Inl (Error (''Access denied opening service '' @ [CHR 0x27] @ name @ [CHR 0x27])) \<and>
           fst (GetServiceStatus p (JSString name # rest) w) =
             Inl (Error (''Access denied opening service '' @ [CHR 0x27] @ name @ [CHR 0x27]))) \<and>
   ''Access denied opening Service Control Manager'' \<noteq>
     ''Access denied opening service '' @ [CHR 0x27] @ name @ [CHR 0x27]"
  by (simp add: ServiceExists_def GetServiceStatus_def name_conversion
      GetLastError_def Let_def split_def ERROR_ACCESS_DENIED_def ERROR_SERVICE_DOES_NOT_EXIST_def)

theorem access_denied_names_the_resource_witness:
  "fst (ServiceExists host_manager_denied [JSString ''Spooler''] boot) =
     Inl (Error ''Access denied opening Service Control Manager'') \<and>
   fst (GetServiceStatus host_manager_denied [JSString ''Spooler''] boot) =
     Inl (Error ''Access denied opening Service Control Manager'') \<and>
   fst (ServiceExists host_service_denied [JSString ''Spooler''] boot) =
     Inl (Error (''Access denied opening service '' @ [CHR 0x27] @ ''Spooler'' @ [CHR 0x27])) \<and>
   fst (GetServiceStatus host_service_denied [JSString ''Spooler''] boot) =
     Inl (Error (''Access denied opening service '' @ [CHR 0x27] @ ''Spooler'' @ [CHR 0x27]))"
proof -
  let ?m1 = "snd (OpenSCManagerW host_manager_denied (SC_MANAGER_CONNECT OR SC_MANAGER_ENUMERATE_SERVICE)
                    (name_converted host_manager_denied ''Spooler'' boot))"
  let ?s1 = "snd (OpenSCManagerW host_service_denied (SC_MANAGER_CONNECT OR SC_MANAGER_ENUMERATE_SERVICE)
                    (name_converted host_service_denied ''Spooler'' boot))"
  let ?s2 = "snd (OpenServiceW host_service_denied 1 (c_str ''Spooler'')
                    (SERVICE_QUERY_STATUS OR SERVICE_QUERY_CONFIG) ?s1)"
  have manager: "OpenSCManagerW host_manager_denied (SC_MANAGER_CONNECT OR SC_MANAGER_ENUMERATE_SERVICE)
                   (name_converted host_manager_denied ''Spooler'' boot) = (0, ?m1) \<and> last_error ?m1 = ERROR_ACCESS_DENIED"
    by (simp add: api_defs host_manager_denied_def host_def boot_def name_converted_def)
  have service: "OpenSCManagerW host_service_denied (SC_MANAGER_CONNECT OR SC_MANAGER_ENUMERATE_SERVICE)
                   (name_converted host_service_denied ''Spooler'' boot) = (1, ?s1) \<and> (1::nat) \<noteq> 0 \<and>
                 OpenServiceW host_service_denied 1 (c_str ''Spooler'')
                   (SERVICE_QUERY_STATUS OR SERVICE_QUERY_CONFIG) ?s1 = (0, ?s2) \<and>
                 last_error ?s2 = ERROR_ACCESS_DENIED"
    by (simp add: api_defs host_service_denied_def host_def boot_def name_converted_def c_str_def)
  show ?thesis
    using access_denied_names_the_resource [of host_manager_denied "''Spooler''" boot ?m1 "[]" 0 ?m1]
      access_denied_names_the_resource [of host_service_denied "''Spooler''" boot ?s1 "[]" 1 ?s2]
      manager service
    by simp
qed

section \<open>The existence check against the status query\<close>

lemma lookups_manager_failed:
  assumes "OpenSCManagerW p (SC_MANAGER_CONNECT OR SC_MANAGER_ENUMERATE_SERVICE)
             (name_converted p name w) = (0, w1)"
  shows "ServiceExists p (JSString name # rest) w = GetServiceStatus p (JSString name # rest) w \<and>
         (\<exists>e. fst (ServiceExists p (JSString name # rest) w) = Inl e)"
  using assms
  by (simp add: ServiceExists_def GetServiceStatus_def name_conversion
      Let_def split_def)

lemma lookups_service_failed:
  assumes "OpenSCManagerW p (SC_MANAGER_CONNECT OR SC_MANAGER_ENUMERATE_SERVICE)
             (name_converted p name w) = (hSCManager, w1)"
    and "hSCManager \<noteq> 0"
    and "OpenServiceW p hSCManager (c_str name) (SERVICE_QUERY_STATUS OR SERVICE_QUERY_CONFIG) w1 = (0, w2)"
  shows "snd (ServiceExists p (JSString name # rest) w) = snd (GetServiceStatus p (JSString name # rest) w) \<and>
         (if last_error w2 = ERROR_SERVICE_DOES_NOT_EXIST
          then fst (ServiceExists p (JSString name # rest) w) = Inr (JSBoolean False) \<and>
               fst (GetServiceStatus p (JSString name # rest) w) =
                 Inr (JSObject [(''name'', JSString name), (''exists'', JSBoolean False),
                                (''state'', JSString ''not_found''), (''pid'', JSNumber 0)])
          else \<exists>e. fst (ServiceExists p (JSString name # rest) w) = Inl e \<and>
                   fst (GetServiceStatus p (JSString name # rest) w) = Inl e)"
  using assms
  by (simp add: ServiceExists_def GetServiceStatus_def name_conversion
      GetLastError_def Let_def split_def)

lemma ServiceExists_opened:
  assumes "OpenSCManagerW p (SC_MANAGER_CONNECT OR SC_MANAGER_ENUMERATE_SERVICE)
             (name_converted p name w) = (hSCManager, w1)"
    and "hSCManager \<noteq> 0"
    and "OpenServiceW p hSCManager (c_str name) (SERVICE_QUERY_STATUS OR SERVICE_QUERY_CONFIG) w1 = (hService, w2)"
    and "hService \<noteq> 0"
  shows "fst (ServiceExists p (JSString name # rest) w) = Inr (JSBoolean True) \<and>
         trace (snd (ServiceExists p (JSString name # rest) w)) =
           trace w2 @ [CloseServiceHandle_call hService, CloseServiceHandle_call hSCManager]"
  using assms
  by (simp add: ServiceExists_def name_conversion
      Let_def split_def trace_api)

lemma GetServiceStatus_opened_trace:
  assumes "OpenSCManagerW p (SC_MANAGER_CONNECT OR SC_MANAGER_ENUMERATE_SERVICE)
             (name_converted p name w) = (hSCManager, w1)"
    and "hSCManager \<noteq> 0"
    and "OpenServiceW p hSCManager (c_str name) (SERVICE_QUERY_STATUS OR SERVICE_QUERY_CONFIG) w1 = (hService, w2)"
    and "hService \<noteq> 0"
  shows "\<exists>cs. trace (snd (GetServiceStatus p (JSString name # rest) w)) = trace w2 @ cs"
proof -
  let ?q = "QueryServiceStatusEx p hService w2"
  let ?c = "QueryServiceConfigW p hService 0 (snd (snd ?q))"
  let ?w6 = "snd (snd (snd ?c))"
  let ?d = "QueryServiceConfigW p hService (fst (snd ?c)) ?w6"
  let ?w7 = "snd (snd (snd ?d))"
  obtain cs where cs: "trace (snd (WideToUtf8 p (fst (snd (snd ?d))) ?w7)) = trace ?w7 @ cs"
    using trace_WideToUtf8 by blast
  show ?thesis
    using assms
    by (simp add: GetServiceStatus_def name_conversion
      Let_def split_def trace_api cs)
qed

text \<open>
  C10, as the code has it. For the same arguments, platform and world: whenever
  \<^verbatim>\<open>serviceExists\<close> throws, \<^verbatim>\<open>getServiceStatus\<close> throws the same error (argument
  validation, session open, service open); \<^verbatim>\<open>serviceExists\<close> returns \<open>false\<close> exactly
  when \<^verbatim>\<open>getServiceStatus\<close> returns a record with \<open>exists = false\<close>; a record with
  \<open>exists = true\<close> implies that \<^verbatim>\<open>serviceExists\<close> returns \<open>true\<close>; and when
  \<^verbatim>\<open>serviceExists\<close> returns \<open>true\<close>, \<^verbatim>\<open>getServiceStatus\<close> returns a record with
  \<open>exists = true\<close> or throws the error of its failed status query. The first four
  platform calls of the two (the conversions of the name, the session open and the service
  open, with their access rights) are the same.
\<close>
theorem exists_agrees_with_status:
  "(\<forall>e. fst (ServiceExists p info w) = Inl e \<longrightarrow> fst (GetServiceStatus p info w) = Inl e) \<and>
   (fst (ServiceExists p info w) = Inr (JSBoolean False) \<longleftrightarrow>
      (\<exists>v. fst (GetServiceStatus p info w) = Inr v \<and> property v ''exists'' = Some (JSBoolean False))) \<and>
   ((\<exists>v. fst (GetServiceStatus p info w) = Inr v \<and> property v ''exists'' = Some (JSBoolean True))
      \<longrightarrow> fst (ServiceExists p info w) = Inr (JSBoolean True)) \<and>
   (fst (ServiceExists p info w) = Inr (JSBoolean True)
      \<longrightarrow> (\<exists>v. fst (GetServiceStatus p info w) = Inr v \<and> property v ''exists'' = Some (JSBoolean True)) \<or>
          (\<exists>code. fst (GetServiceStatus p info w) =
             Inl (Error (''QueryServiceStatusEx failed (error '' @ to_string code @ '')'')))) \<and>
   take (length (trace w) + 4) (trace (snd (ServiceExists p info w))) =
     take (length (trace w) + 4) (trace (snd (GetServiceStatus p info w)))"
proof (cases "length info < 1 \<or> \<not> IsString (info ! 0)")
  case True
  then have "ServiceExists p info w = (Inl (TypeError ''Service name (string) expected''), w)"
    and "GetServiceStatus p info w = (Inl (TypeError ''Service name (string) expected''), w)"
    by (simp_all add: ServiceExists_def GetServiceStatus_def)
  then show ?thesis
    by simp
next
  case False
  then obtain name rest where info: "info = JSString name # rest"
    by (cases info; cases "hd info") auto
  let ?A = "SC_MANAGER_CONNECT OR SC_MANAGER_ENUMERATE_SERVICE"
  let ?B = "SERVICE_QUERY_STATUS OR SERVICE_QUERY_CONFIG"
  obtain hSCManager w1 where session: "OpenSCManagerW p ?A (name_converted p name w) = (hSCManager, w1)"
    by (cases "OpenSCManagerW p ?A (name_converted p name w)")
  show ?thesis
  proof (cases "hSCManager = 0")
    case True
    with session lookups_manager_failed [of p name w w1 rest]
    show ?thesis
      unfolding info by auto
  next
    case manager: False
    obtain hService w2 where service: "OpenServiceW p hSCManager (c_str name) ?B w1 = (hService, w2)"
      by (cases "OpenServiceW p hSCManager (c_str name) ?B w1")
    show ?thesis
    proof (cases "hService = 0")
      case True
      with service have failed: "OpenServiceW p hSCManager (c_str name) ?B w1 = (0, w2)"
        by simp
      show ?thesis
        using lookups_service_failed [OF session manager failed, of rest]
        unfolding info by (auto split: if_splits)
    next
      case opened: False
      have t1: "trace w1 = trace (name_converted p name w) @ [OpenSCManagerW_call ?A]"
        using trace_OpenSCManagerW [of p ?A "name_converted p name w"] session by simp
      have t2: "trace w2 = trace w1 @ [OpenServiceW_call hSCManager (c_str name) ?B]"
        using trace_OpenServiceW [of p hSCManager "c_str name" ?B w1] service by simp
      have four: "trace w2 = trace w @
          [MultiByteToWideChar_call (c_str name) 0,
           MultiByteToWideChar_call (c_str name) (Suc (utf16_units (c_str name))),
           OpenSCManagerW_call ?A, OpenServiceW_call hSCManager (c_str name) ?B]"
        by (simp add: t1 t2 trace_name_converted)
      have present: "fst (ServiceExists p (JSString name # rest) w) = Inr (JSBoolean True)"
        and left: "trace (snd (ServiceExists p (JSString name # rest) w)) =
           trace w2 @ [CloseServiceHandle_call hService, CloseServiceHandle_call hSCManager]"
        using ServiceExists_opened [OF session manager service opened, of rest] by simp_all
      obtain cs where right: "trace (snd (GetServiceStatus p (JSString name # rest) w)) = trace w2 @ cs"
        using GetServiceStatus_opened_trace [OF session manager service opened, of rest] by blast
      have calls: "take (length (trace w) + 4) (trace (snd (ServiceExists p (JSString name # rest) w))) =
          take (length (trace w) + 4) (trace (snd (GetServiceStatus p (JSString name # rest) w)))"
        by (simp add: left right four)
      obtain ok ssp w3 where status: "QueryServiceStatusEx p hService w2 = (ok, ssp, w3)"
        by (cases "QueryServiceStatusEx p hService w2")
      show ?thesis
      proof (cases ok)
        case True
        with status have "QueryServiceStatusEx p hService w2 = (True, ssp, w3)"
          by simp
        from GetServiceStatus_found [OF session manager service opened this, of rest]
        show ?thesis
          unfolding info using present calls by auto
      next
        case False
        with status have "QueryServiceStatusEx p hService w2 = (False, ssp, w3)"
          by simp
        from GetServiceStatus_query_failed [OF session manager service opened this, of rest]
        show ?thesis
          unfolding info using present calls by auto
      qed
    qed
  qed
qed

theorem exists_agrees_with_status_witness:
  "fst (ServiceExists host [JSString ''Spooler''] boot) = Inr (JSBoolean True) \<and>
   (\<exists>v. fst (GetServiceStatus host [JSString ''NoSuchServiceXYZ123''] boot) = Inr v \<and>
        property v ''exists'' = Some (JSBoolean False)) \<and>
   fst (GetServiceStatus host_manager_denied [JSString ''Spooler''] boot) =
     Inl (Error ''Access denied opening Service Control Manager'') \<and>
   ((\<exists>v. fst (GetServiceStatus host_status_fails [JSString ''Spooler''] boot) = Inr v \<and>
         property v ''exists'' = Some (JSBoolean True)) \<or>
    (\<exists>code. fst (GetServiceStatus host_status_fails [JSString ''Spooler''] boot) =
         Inl (Error (''QueryServiceStatusEx failed (error '' @ to_string code @ '')''))))"
proof -
  have found: "fst (GetServiceStatus host [JSString ''Spooler''] boot) =
      Inr (JSObject [(''name'', JSString ''Spooler''), (''exists'', JSBoolean True),
                     (''state'', JSString ''running''), (''pid'', JSNumber 1234),
                     (''displayName'', JSString ''Print Spooler'')])"
    by (simp add: GetServiceStatus_def host_def boot_def api_defs WideToUtf8_def c_str_def Let_def
        StateToString_def SERVICE_STOPPED_def SERVICE_START_PENDING_def SERVICE_STOP_PENDING_def
        SERVICE_RUNNING_def)
  have absent: "fst (ServiceExists host [JSString ''NoSuchServiceXYZ123''] boot) = Inr (JSBoolean False)"
    by (simp add: ServiceExists_def host_def boot_def api_defs c_str_def Let_def)
  have denied: "fst (ServiceExists host_manager_denied [JSString ''Spooler''] boot) =
      Inl (Error ''Access denied opening Service Control Manager'')"
    by (simp add: ServiceExists_def host_manager_denied_def host_def boot_def api_defs c_str_def Let_def)
  have first: "fst (ServiceExists host [JSString ''Spooler''] boot) = Inr (JSBoolean True)"
    using exists_agrees_with_status [of host "[JSString ''Spooler'']" boot] found by simp
  have second: "\<exists>v. fst (GetServiceStatus host [JSString ''NoSuchServiceXYZ123''] boot) = Inr v \<and>
        property v ''exists'' = Some (JSBoolean False)"
    using exists_agrees_with_status [of host "[JSString ''NoSuchServiceXYZ123'']" boot] absent by blast
  have third: "fst (GetServiceStatus host_manager_denied [JSString ''Spooler''] boot) =
     Inl (Error ''Access denied opening Service Control Manager'')"
    using exists_agrees_with_status [of host_manager_denied "[JSString ''Spooler'']" boot] denied by blast
  have opened: "fst (ServiceExists host_status_fails [JSString ''Spooler''] boot) = Inr (JSBoolean True)"
    by (simp add: ServiceExists_def host_status_fails_def host_def boot_def api_defs c_str_def Let_def)
  have fourth:
    "(\<exists>v. fst (GetServiceStatus host_status_fails [JSString ''Spooler''] boot) = Inr v \<and>
         property v ''exists'' = Some (JSBoolean True)) \<or>
     (\<exists>code. fst (GetServiceStatus host_status_fails [JSString ''Spooler''] boot) =
         Inl (Error (''QueryServiceStatusEx failed (error '' @ to_string code @ '')'')))"
    using exists_agrees_with_status [of host_status_fails "[JSString ''Spooler'']" boot] opened by blast
  show ?thesis
    using first second third fourth by blast
qed

text \<open>
  C10 as stated fails where the service opens and the status query fails:
  \<^verbatim>\<open>serviceExists\<close> returns \<open>true\<close> and \<^verbatim>\<open>getServiceStatus\<close> returns no record.
\<close>
theorem exists_true_but_status_fails:
  "fst (ServiceExists host_status_fails [JSString ''Spooler''] boot) = Inr (JSBoolean True) \<and>
   fst (GetServiceStatus host_status_fails [JSString ''Spooler''] boot) =
     Inl (Error ''QueryServiceStatusEx failed (error 122)'')"
  by (simp add: ServiceExists_def GetServiceStatus_def host_status_fails_def host_def boot_def api_defs
      WideToUtf8_def c_str_def Let_def to_string.simps)

end
